theory Spec2Isabelle
  imports Complex_Main
begin

section \<open>Data model\<close>

text \<open>
  One period of the historical series: a row of the pandas DataFrame \<open>hist_data\<close> that
  \<open>data_fetcher.get_historical_data\<close> returns, with its index entry and the columns
  \<open>Open\<close>, \<open>High\<close>, \<open>Low\<close>, \<open>Close\<close>, \<open>Volume\<close>. The script reads the column
  \<open>Close\<close> only. Prices are modelled as real numbers; nothing below depends on how a
  double rounds, only on whether the last close is zero.
\<close>

record bar =
  timestamp :: int
  Open :: real
  High :: real
  Low :: real
  Close :: real
  Volume :: real

text \<open>A DataFrame is the list of its rows in index order; \<open>hist_data.empty\<close> is \<open>hist = []\<close>.\<close>

type_synonym frame = "bar list"

text \<open>
  \<open>prediction_data\<close> is a Python dictionary read by key
  (\<open>prediction_data['predicted_price']\<close>, \<open>['mae']\<close>, \<open>['rmse']\<close>, \<open>['r2']\<close>).
\<close>

type_synonym prediction = "string \<rightharpoonup> real"

text \<open>
  The exceptions of the script. \<open>KeyError\<close>, \<open>IndexError\<close> and \<open>ZeroDivisionError\<close> are the
  faults the script's own expressions can raise; \<open>External\<close> is any exception raised
  inside a collaborator module (\<open>data_fetcher\<close>, \<open>visualizations\<close>, \<open>predictions\<close>),
  carried by its message. All of them derive from \<open>Exception\<close>, so the handler of
  line 276 catches them.
\<close>

datatype exn = KeyError string | IndexError | ZeroDivisionError | External string

text \<open>
  What the run leaves behind, in program order: the Streamlit elements it renders and
  the call of the Forecaster it makes. \<open>Predicted_price\<close> and \<open>Change\<close> are the two
  \<open>st.markdown\<close> headings of lines 205-209 with the numbers they format, \<open>Metric\<close> is
  \<open>st.metric\<close> with a formatted number, \<open>Widget\<close> is an element rendered from a value
  that a collaborator produced, \<open>Predict_call\<close> records the arguments of
  \<open>predictions.predict_next_day\<close> at line 190, and \<open>Caught\<close> is the
  \<open>st.error(f"An error occurred: {str(e)}")\<close> of line 277.
\<close>

datatype colour = Green | Red

datatype event =
    Error string
  | Info string
  | Header string
  | Subheader string
  | Caption string
  | Spinner string
  | Predicted_price colour real
  | Change colour real real
  | Metric string real
  | Widget string
  | Predict_call frame string
  | Caught exn

text \<open>
  A run ends because \<open>st.stop()\<close> was called (it raises Streamlit's \<open>StopException\<close>,
  which derives from \<open>BaseException\<close> and so passes the \<open>except Exception\<close> of line 276),
  or because the script reached its last line, possibly through that handler.
\<close>

datatype outcome = Stopped | Completed

text \<open>The elements that show a number of the forecast: the two headings and the metrics.\<close>

fun shows_number :: "event \<Rightarrow> bool" where
  "shows_number (Predicted_price c p) = True"
| "shows_number (Change c d pct) = True"
| "shows_number (Metric label v) = True"
| "shows_number e = False"

text \<open>
  The collaborators of the script, whose modules are not part of the sources. A
  collaborator returns a value or raises (\<open>Inl\<close> its message).
  \<^item> \<open>get_historical_data\<close>: \<open>None\<close> or a DataFrame (line 75).
  \<^item> \<open>get_company_info\<close>: the dictionary \<open>company_info\<close> (line 83), its values by
    their printed form.
  \<^item> \<open>overview\<close>: lines 87-182 (page header, the Overview and Financial Data tabs),
    which only call collaborators and format their values: the elements rendered, and
    the exception that ended the block if one did.
  \<^item> \<open>predict_next_day\<close>: \<open>None\<close> or a dictionary (line 190). Modelled from the spec: the
    Forecaster borrows the input series read-only and keeps no reference to it, so the
    frame read at line 199 is the frame passed at line 190.
  \<^item> \<open>create_prediction_chart\<close>: the chart of line 219.
  \<^item> \<open>about\<close>: lines 228-272 (the About tab), as \<open>overview\<close>.
\<close>

type_synonym company_info = "string \<rightharpoonup> string"

record env =
  get_historical_data :: "string \<Rightarrow> string \<Rightarrow> string \<Rightarrow> string + frame option"
  get_company_info :: "string \<Rightarrow> string + company_info"
  overview :: "company_info \<Rightarrow> frame \<Rightarrow> string \<Rightarrow> string list \<times> string option"
  predict_next_day :: "frame \<Rightarrow> string \<Rightarrow> string + prediction option"
  create_prediction_chart :: "frame \<Rightarrow> prediction \<Rightarrow> string \<Rightarrow> string + string"
  about :: "company_info \<Rightarrow> string \<Rightarrow> string list \<times> string option"

section \<open>The script\<close>

subsection \<open>Primitive operations that can fault\<close>

text \<open>\<open>d[k]\<close> on a dictionary: \<open>KeyError\<close> when the key is absent.\<close>

definition getitem :: "prediction \<Rightarrow> string \<Rightarrow> exn + real" where
  "getitem d k = (case d k of None \<Rightarrow> Inl (KeyError k) | Some v \<Rightarrow> Inr v)"

text \<open>\<open>s.iloc[-1]\<close> on a pandas Series: \<open>IndexError\<close> when the series is empty.\<close>

definition iloc_last :: "real list \<Rightarrow> exn + real" where
  "iloc_last xs = (if xs = [] then Inl IndexError else Inr (last xs))"

text \<open>
  \<open>a / b\<close>, with Python's fault on a zero divisor. (On numpy doubles the same
  expression yields \<open>inf\<close> or \<open>nan\<close> with a warning instead of raising; either way the
  quotient is a number only when \<open>b\<close> is not zero.)
\<close>

definition truediv :: "real \<Rightarrow> real \<Rightarrow> exn + real" where
  "truediv a b = (if b = 0 then Inl ZeroDivisionError else Inr (a / b))"

subsection \<open>The Prediction tab, lines 184-226\<close>

text \<open>
  Lines 200-201:
  \<^verbatim>\<open>price_diff = predicted_price - current_price\<close>
  \<^verbatim>\<open>price_change_pct = (price_diff / current_price) * 100\<close>
\<close>

definition price_change_pct :: "real \<Rightarrow> real \<Rightarrow> exn + real" where
  "price_change_pct predicted_price current_price =
     (let price_diff = predicted_price - current_price in
      case truediv price_diff current_price of
        Inl e \<Rightarrow> Inl e
      | Inr q \<Rightarrow> Inr (q * 100))"

text \<open>
  The first column, lines 196-215: the elements rendered so far and the exception that
  ended the block, if one did.
\<close>

definition col1 :: "frame \<Rightarrow> prediction \<Rightarrow> event list \<times> exn option" where
  "col1 hist_data prediction_data =
     (case getitem prediction_data ''predicted_price'' of
        Inl e \<Rightarrow> ([], Some e)
      | Inr predicted_price \<Rightarrow>
     (case iloc_last (map Close hist_data) of
        Inl e \<Rightarrow> ([], Some e)
      | Inr current_price \<Rightarrow>
     (case price_change_pct predicted_price current_price of
        Inl e \<Rightarrow> ([], Some e)
      | Inr pct \<Rightarrow>
     (let price_diff = predicted_price - current_price;
          c = (if predicted_price > current_price then Green else Red);
          shown = [Predicted_price c predicted_price, Change c price_diff pct,
                   Subheader ''Model Performance Metrics'']
      in
     (case getitem prediction_data ''mae'' of
        Inl e \<Rightarrow> (shown, Some e)
      | Inr mae \<Rightarrow>
     (case getitem prediction_data ''rmse'' of
        Inl e \<Rightarrow> (shown @ [Metric ''Mean Absolute Error'' mae], Some e)
      | Inr rmse \<Rightarrow>
     (case getitem prediction_data ''r2'' of
        Inl e \<Rightarrow>
          (shown @ [Metric ''Mean Absolute Error'' mae,
                    Metric ''Root Mean Squared Error'' rmse], Some e)
      | Inr r2 \<Rightarrow>
          (shown @ [Metric ''Mean Absolute Error'' mae,
                    Metric ''Root Mean Squared Error'' rmse,
                    Metric ''R-squared'' r2], None))))))))"

definition unable_msg :: string where
  "unable_msg =
     ''Unable to generate predictions. Insufficient data or error in the prediction model.''"

definition prediction_info_msg :: string where
  "prediction_info_msg =
     ''This prediction model uses historical stock data to forecast potential future price movements. Please note that these predictions are for educational purposes only and should not be used as financial advice.''"

text \<open>The caption of line 224, without its leading warning sign (not an ASCII character).\<close>

definition disclaimer_msg :: string where
  "disclaimer_msg =
     ''Disclaimer: This is a simplified prediction model for educational purposes. Stock market predictions are inherently uncertain.''"

text \<open>Lines 185-190: what the tab shows before the Forecaster's answer is looked at.\<close>

definition prediction_intro :: "frame \<Rightarrow> string \<Rightarrow> event list" where
  "prediction_intro hist_data stock_symbol =
     [Header ''Stock Price Prediction'',
      Info prediction_info_msg,
      Spinner ''Training prediction model...'',
      Predict_call hist_data stock_symbol]"

text \<open>The whole tab.\<close>

definition prediction_tab :: "env \<Rightarrow> frame \<Rightarrow> string \<Rightarrow> event list \<times> exn option" where
  "prediction_tab E hist_data stock_symbol =
     (let intro = prediction_intro hist_data stock_symbol in
      case predict_next_day E hist_data stock_symbol of
        Inl msg \<Rightarrow> (intro, Some (External msg))
      | Inr None \<Rightarrow> (intro @ [Error unable_msg], None)
      | Inr (Some prediction_data) \<Rightarrow>
          (case col1 hist_data prediction_data of
             (shown, Some e) \<Rightarrow> (intro @ shown, Some e)
           | (shown, None) \<Rightarrow>
               (case create_prediction_chart E hist_data prediction_data stock_symbol of
                  Inl msg \<Rightarrow> (intro @ shown, Some (External msg))
                | Inr chart \<Rightarrow>
                    (intro @ shown @ [Widget chart, Caption disclaimer_msg], None))))"

subsection \<open>The main block, lines 71-278\<close>

definition no_data_msg :: "string \<Rightarrow> string" where
  "no_data_msg stock_symbol =
     ''No data available for '' @ stock_symbol @ ''. Please check the symbol and try again.''"

definition try_different_msg :: string where
  "try_different_msg = ''Please try a different stock symbol or timeframe.''"

definition fetching_msg :: "string \<Rightarrow> string" where
  "fetching_msg stock_symbol = ''Fetching data for '' @ stock_symbol @ ''...''"

text \<open>Lines 276-278: the handler renders the exception and a hint; the script then ends.\<close>

definition handler :: "event list \<Rightarrow> exn \<Rightarrow> event list \<times> outcome" where
  "handler shown e = (shown @ [Caught e, Info try_different_msg], Completed)"

text \<open>
  Lines 83-274, entered with a DataFrame: the company info is fetched, the guard of
  line 86 tests the frame again, then the header and the four tabs are rendered in
  order. An exception in any of them leaves what was rendered and goes to the handler.
\<close>

definition display :: "env \<Rightarrow> event list \<Rightarrow> frame \<Rightarrow> string \<Rightarrow> event list \<times> outcome" where
  "display E shown hist_data stock_symbol =
     (case get_company_info E stock_symbol of
        Inl msg \<Rightarrow> handler shown (External msg)
      | Inr info \<Rightarrow>
     (if hist_data \<noteq> [] then
        (case overview E info hist_data stock_symbol of
           (ws, Some msg) \<Rightarrow> handler (shown @ map Widget ws) (External msg)
         | (ws, None) \<Rightarrow>
             (case prediction_tab E hist_data stock_symbol of
                (ps, Some e) \<Rightarrow> handler (shown @ map Widget ws @ ps) e
              | (ps, None) \<Rightarrow>
                  (case about E info stock_symbol of
                     (as, Some msg) \<Rightarrow>
                       handler (shown @ map Widget ws @ ps @ map Widget as) (External msg)
                   | (as, None) \<Rightarrow>
                       (shown @ map Widget ws @ ps @ map Widget as, Completed))))
      else (shown @ [Error (no_data_msg stock_symbol)], Completed)))"

text \<open>
  The script from line 71 on. \<open>hist_data is None or hist_data.empty\<close> leads to
  \<open>st.error\<close>, \<open>st.info\<close> and \<open>st.stop()\<close>.
\<close>

definition app :: "env \<Rightarrow> string \<Rightarrow> string \<Rightarrow> string \<Rightarrow> event list \<times> outcome" where
  "app E stock_symbol timeframe interval =
     (let shown = [Spinner (fetching_msg stock_symbol)] in
      case get_historical_data E stock_symbol timeframe interval of
        Inl msg \<Rightarrow> handler shown (External msg)
      | Inr None \<Rightarrow>
          (shown @ [Error (no_data_msg stock_symbol), Info try_different_msg], Stopped)
      | Inr (Some hist_data) \<Rightarrow>
          (if hist_data = [] then
             (shown @ [Error (no_data_msg stock_symbol), Info try_different_msg], Stopped)
           else display E shown hist_data stock_symbol))"

section \<open>The Forecaster, modelled from the specification\<close>

text \<open>
  The module \<open>modules/predictions.py\<close> is not part of the sources. The definitions of
  this section follow the specification's description of the prediction pipeline
  (Features, Labels and Split, Fit, Evaluate, Infer); each says which sentences it
  follows. The two constants the specification leaves to the implementer are fixed
  at the values it gives as examples: a lookback of 5 periods and a training share of
  80 percent.
\<close>

text \<open>
  Modelled from the spec: the error taxonomy of section 7. A \<open>ComputationError\<close>
  stands for NaN or Inf in a result; over the real numbers neither exists, so the
  pipeline below never produces it.
\<close>

datatype forecast_error = InsufficientDataError | ModelFitError | ComputationError

text \<open>
  Modelled from the spec: a FeatureRow is a fixed-width numeric vector derived for one
  period and index-aligned to it; \<open>period\<close> is the index of that period in the series.
\<close>

record feature_row =
  period :: nat
  features :: "real list"

text \<open>
  Modelled from the spec: a LabeledExample is a FeatureRow paired with the next
  period's close price as the target.
\<close>

record labeled_example =
  row :: feature_row
  target :: real

text \<open>Modelled from the spec: ForecastResult {predicted_price, mae, rmse, r2}.\<close>

record forecast_result =
  predicted_price :: real
  mae :: real
  rmse :: real
  r2 :: real

text \<open>
  Modelled from the spec: what the specification calls policy choices. \<open>vectorise\<close>
  turns the lookback window (the periods before the one at hand) and the period itself
  into the feature vector; \<open>fit\<close> learns a model from the training partition or fails
  (the ModelFitError of section 4.3); \<open>infer\<close> applies a fitted model to a feature
  vector.
\<close>

record 'm policy =
  vectorise :: "bar list \<Rightarrow> bar \<Rightarrow> real list"
  fit :: "labeled_example list \<Rightarrow> 'm option"
  infer :: "'m \<Rightarrow> real list \<Rightarrow> real"

text \<open>Modelled from the spec: the lookback window size N, "a fixed small constant (e.g., 5)".\<close>

definition lookback :: nat where
  "lookback = 5"

text \<open>
  Modelled from the spec: section 4.1. One FeatureRow per period once the lookback is
  satisfied; periods with fewer than N preceding observations are dropped; a series
  with fewer than N+2 periods fails with InsufficientDataError.
\<close>

definition feature_rows :: "'m policy \<Rightarrow> frame \<Rightarrow> forecast_error + feature_row list" where
  "feature_rows P hist =
     (if length hist < lookback + 2 then Inl InsufficientDataError
      else Inr (map (\<lambda>i. \<lparr>period = i,
                            features = vectorise P (take lookback (drop (i - lookback) hist))
                                         (hist ! i)\<rparr>)
                  [lookback ..< length hist]))"

text \<open>
  Modelled from the spec: section 4.2. Every FeatureRow except the last is labelled
  with the close of the immediately following period.
\<close>

definition labeled_examples :: "frame \<Rightarrow> feature_row list \<Rightarrow> labeled_example list" where
  "labeled_examples hist rows =
     map (\<lambda>r. \<lparr>row = r, target = Close (hist ! Suc (period r))\<rparr>) (butlast rows)"

text \<open>Modelled from the spec: the leading fraction that forms the training set, here 80 percent.\<close>

definition train_size :: "nat \<Rightarrow> nat" where
  "train_size n = n * 4 div 5"

text \<open>
  Modelled from the spec: section 4.2. A leading contiguous part is the training set,
  the trailing part the evaluation set, in the order given; fewer than 2 examples fail
  with InsufficientDataError.
\<close>

definition chronological_split ::
  "labeled_example list \<Rightarrow> forecast_error + labeled_example list \<times> labeled_example list" where
  "chronological_split examples =
     (if length examples < 2 then Inl InsufficientDataError
      else Inr (take (train_size (length examples)) examples,
                drop (train_size (length examples)) examples))"

text \<open>
  Modelled from the spec: the internal split of one invocation: the training set, the
  evaluation set, and the last FeatureRow, reserved as the inference input.
\<close>

definition split_of ::
  "'m policy \<Rightarrow> frame \<Rightarrow>
     forecast_error + labeled_example list \<times> labeled_example list \<times> feature_row" where
  "split_of P hist =
     (case feature_rows P hist of
        Inl e \<Rightarrow> Inl e
      | Inr rows \<Rightarrow>
          (case chronological_split (labeled_examples hist rows) of
             Inl e \<Rightarrow> Inl e
           | Inr (train, evaluation) \<Rightarrow> Inr (train, evaluation, last rows)))"

text \<open>Modelled from the spec: section 4.4, residual = predicted - actual close.\<close>

definition residuals :: "'m policy \<Rightarrow> 'm \<Rightarrow> labeled_example list \<Rightarrow> real list" where
  "residuals P m examples = map (\<lambda>e. infer P m (features (row e)) - target e) examples"

definition mean :: "real list \<Rightarrow> real" where
  "mean xs = sum_list xs / real (length xs)"

text \<open>Modelled from the spec: MAE = mean of absolute residuals.\<close>

definition mean_absolute_error :: "real list \<Rightarrow> real" where
  "mean_absolute_error rs = mean (map abs rs)"

text \<open>Modelled from the spec: RMSE = square root of mean squared residuals.\<close>

definition root_mean_squared_error :: "real list \<Rightarrow> real" where
  "root_mean_squared_error rs = sqrt (mean (map (\<lambda>r. r\<^sup>2) rs))"

text \<open>
  Modelled from the spec: R-squared = 1 - (sum of squared residuals / total sum of
  squares about the evaluation mean), and 0 when the evaluation targets have zero
  variance.
\<close>

definition r_squared :: "real list \<Rightarrow> real list \<Rightarrow> real" where
  "r_squared rs ys =
     (let ss_res = sum_list (map (\<lambda>r. r\<^sup>2) rs);
          ss_tot = sum_list (map (\<lambda>y. (y - mean ys)\<^sup>2) ys)
      in if ss_tot = 0 then 0 else 1 - ss_res / ss_tot)"

text \<open>
  Modelled from the spec: the linear pipeline of section 4: split, fit on the training
  set only, evaluate on the evaluation set, infer on the reserved last FeatureRow.
\<close>

definition pipeline :: "'m policy \<Rightarrow> frame \<Rightarrow> forecast_error + forecast_result" where
  "pipeline P hist =
     (case split_of P hist of
        Inl e \<Rightarrow> Inl e
      | Inr (train, evaluation, inference_row) \<Rightarrow>
          (case fit P train of
             None \<Rightarrow> Inl ModelFitError
           | Some m \<Rightarrow>
               (let rs = residuals P m evaluation in
                Inr \<lparr>predicted_price = infer P m (features inference_row),
                     mae = mean_absolute_error rs,
                     rmse = root_mean_squared_error rs,
                     r2 = r_squared rs (map target evaluation)\<rparr>)))"

text \<open>
  Modelled from the spec: the Forecaster's contract of section 4.5 and the propagation
  policy of section 7: every internal failure becomes the single "unavailable"
  outcome. The ticker is taken and not used.
\<close>

definition forecaster :: "'m policy \<Rightarrow> frame \<Rightarrow> string \<Rightarrow> forecast_result option" where
  "forecaster P hist ticker = (case pipeline P hist of Inl e \<Rightarrow> None | Inr r \<Rightarrow> Some r)"

text \<open>
  Modelled from the spec: the ForecastResult as the dictionary the script reads, and the
  script's collaborator \<open>predict_next_day\<close> taken to be this Forecaster.
\<close>

definition as_dict :: "forecast_result \<Rightarrow> prediction" where
  "as_dict r =
     [''predicted_price'' \<mapsto> predicted_price r, ''mae'' \<mapsto> mae r,
      ''rmse'' \<mapsto> rmse r, ''r2'' \<mapsto> r2 r]"

definition with_forecaster :: "'m policy \<Rightarrow> env \<Rightarrow> env" where
  "with_forecaster P E =
     E\<lparr>predict_next_day := \<lambda>hist ticker. Inr (map_option as_dict (forecaster P hist ticker))\<rparr>"

section \<open>Sample inputs\<close>

text \<open>A period with all four prices equal to \<open>c\<close>, and a series of such periods.\<close>

definition flat_bar :: "int \<Rightarrow> real \<Rightarrow> bar" where
  "flat_bar t c = \<lparr>timestamp = t, Open = c, High = c, Low = c, Close = c, Volume = 1000\<rparr>"

definition three_periods :: frame where
  "three_periods = [flat_bar 1 100, flat_bar 2 101, flat_bar 3 102]"

definition eight_periods :: frame where
  "eight_periods =
     [flat_bar 1 100, flat_bar 2 101, flat_bar 3 102, flat_bar 4 103,
      flat_bar 5 104, flat_bar 6 105, flat_bar 7 106, flat_bar 8 107]"

text \<open>
  A policy whose features are the closes of the window and whose model is the close
  of the last training target; and collaborators that return fixed values.
\<close>

definition naive_policy :: "real policy" where
  "naive_policy =
     \<lparr>vectorise = (\<lambda>window b. map Close window),
      fit = (\<lambda>train. if train = [] then None else Some (target (last train))),
      infer = (\<lambda>m v. m)\<rparr>"

definition fixed_env :: "frame option \<Rightarrow> prediction option \<Rightarrow> env" where
  "fixed_env fetched answer =
     \<lparr>get_historical_data = (\<lambda>stock_symbol timeframe interval. Inr fetched),
      get_company_info = (\<lambda>stock_symbol. Inr Map.empty),
      overview = (\<lambda>info hist stock_symbol. ([''overview''], None)),
      predict_next_day = (\<lambda>hist stock_symbol. Inr answer),
      create_prediction_chart = (\<lambda>hist p stock_symbol. Inr ''chart''),
      about = (\<lambda>info stock_symbol. ([''about''], None))\<rparr>"

section \<open>Faults of the script's own expressions\<close>

lemma iloc_last_nonempty: "xs \<noteq> [] \<Longrightarrow> iloc_last (map f xs) = Inr (f (last xs))"
  by (simp add: iloc_last_def last_map)

lemma price_change_pct_nonzero:
  "c \<noteq> 0 \<Longrightarrow> price_change_pct p c = Inr ((p - c) / c * 100)"
  by (simp add: price_change_pct_def truediv_def)

lemma price_change_pct_zero: "price_change_pct p 0 = Inl ZeroDivisionError"
  by (simp add: price_change_pct_def truediv_def)

lemma price_change_pct_fault:
  "price_change_pct p c = Inl e \<Longrightarrow> e = ZeroDivisionError \<and> c = 0"
  by (auto simp: price_change_pct_def truediv_def split: if_splits)

lemma getitem_fault: "getitem d k = Inl e \<Longrightarrow> e = KeyError k"
  by (auto simp: getitem_def split: option.splits)

lemma iloc_last_fault: "iloc_last xs = Inl e \<Longrightarrow> e = IndexError \<and> xs = []"
  by (auto simp: iloc_last_def split: if_splits)

lemma col1_exn:
  "snd (col1 hist d) = Some e \<Longrightarrow>
     (\<exists>k. e = KeyError k) \<or> (e = IndexError \<and> hist = []) \<or>
     (e = ZeroDivisionError \<and> hist \<noteq> [] \<and> Close (last hist) = 0)"
  unfolding col1_def
  by (auto simp: Let_def iloc_last_def last_map split: sum.splits if_splits
      dest!: getitem_fault price_change_pct_fault)

lemma col1_no_call: "Predict_call h s \<notin> set (fst (col1 hist d))"
  unfolding col1_def by (auto simp: Let_def split: sum.splits)

lemma col1_no_caught: "Caught x \<notin> set (fst (col1 hist d))"
  unfolding col1_def by (auto simp: Let_def split: sum.splits)

lemma col1_exn_pair:
  "col1 hist d = (shown, Some e) \<Longrightarrow>
     (\<exists>k. e = KeyError k) \<or> (e = IndexError \<and> hist = []) \<or>
     (e = ZeroDivisionError \<and> hist \<noteq> [] \<and> Close (last hist) = 0)"
  using col1_exn [of hist d e] by simp

lemma col1_no_call_pair: "col1 hist d = (shown, r) \<Longrightarrow> Predict_call h s \<notin> set shown"
  using col1_no_call [of h s hist d] by simp

lemma col1_no_caught_pair: "col1 hist d = (shown, r) \<Longrightarrow> Caught x \<notin> set shown"
  using col1_no_caught [of x hist d] by simp

lemma prediction_tab_exn:
  "snd (prediction_tab E hist s) = Some e \<Longrightarrow>
     (\<exists>k. e = KeyError k) \<or> (\<exists>m. e = External m) \<or> (e = IndexError \<and> hist = []) \<or>
     (e = ZeroDivisionError \<and> hist \<noteq> [] \<and> Close (last hist) = 0)"
  unfolding prediction_tab_def
  by (auto simp: Let_def split: sum.splits option.splits prod.splits dest!: col1_exn_pair)

lemma prediction_tab_call:
  "Predict_call h s' \<in> set (fst (prediction_tab E hist s)) \<Longrightarrow> h = hist \<and> s' = s"
  unfolding prediction_tab_def prediction_intro_def
  by (auto simp: Let_def split: sum.splits option.splits prod.splits dest: col1_no_call_pair)

lemma prediction_tab_no_caught: "Caught x \<notin> set (fst (prediction_tab E hist s))"
  unfolding prediction_tab_def prediction_intro_def
  by (auto simp: Let_def split: sum.splits option.splits prod.splits dest: col1_no_caught_pair)

lemma prediction_tab_pair:
  assumes "prediction_tab E hist s = (ps, r)"
  shows "Caught x \<notin> set ps"
    and "Predict_call h s' \<in> set ps \<Longrightarrow> h = hist \<and> s' = s"
    and "hist \<noteq> [] \<Longrightarrow> r \<noteq> Some IndexError"
  using assms prediction_tab_no_caught [of x E hist s] prediction_tab_call [of h s' E hist s]
    prediction_tab_exn [of E hist s IndexError]
  by auto

lemma handler_events: "fst (handler shown e) = shown @ [Caught e, Info try_different_msg]"
  by (simp add: handler_def)

lemma display_call:
  assumes "Predict_call h s' \<in> set (fst (display E shown hist s))"
  shows "Predict_call h s' \<in> set shown \<or> (h = hist \<and> s' = s \<and> hist \<noteq> [])"
  using assms unfolding display_def
  by (auto simp: handler_events split: if_splits prod.splits option.splits sum.splits
      dest: prediction_tab_pair(2))

lemma display_no_index_error:
  assumes "Caught IndexError \<in> set (fst (display E shown hist s))"
  shows "Caught IndexError \<in> set shown"
  using assms unfolding display_def
  by (auto simp: handler_events split: if_splits prod.splits option.splits sum.splits
      dest: prediction_tab_pair(1) prediction_tab_pair(3))

section \<open>The Forecaster is reached with a non-empty series only\<close>

text \<open>
  Claim C10. When the fetched series is \<open>None\<close> or empty the script renders the
  "no data" error and the hint and stops (\<open>st.stop()\<close>). Hence, in every run, a call of
  \<open>predict_next_day\<close> has the fetched series as its argument and that series is not
  empty, the read \<open>hist_data['Close'].iloc[-1]\<close> on it returns its last close, and the
  handler of line 276 never reports an \<open>IndexError\<close>.
\<close>

theorem predict_reached_only_with_data:
  "(get_historical_data E s t i = Inr None \<or> get_historical_data E s t i = Inr (Some []) \<longrightarrow>
      app E s t i =
        ([Spinner (fetching_msg s), Error (no_data_msg s), Info try_different_msg], Stopped))
   \<and> (Predict_call h s' \<in> set (fst (app E s t i)) \<longrightarrow>
        h \<noteq> [] \<and> get_historical_data E s t i = Inr (Some h) \<and>
        iloc_last (map Close h) = Inr (Close (last h)))
   \<and> Caught IndexError \<notin> set (fst (app E s t i))"
proof -
  have stop: "app E s t i =
        ([Spinner (fetching_msg s), Error (no_data_msg s), Info try_different_msg], Stopped)"
    if "get_historical_data E s t i = Inr None \<or> get_historical_data E s t i = Inr (Some [])"
    using that by (auto simp: app_def Let_def)
  have reached: "h \<noteq> [] \<and> get_historical_data E s t i = Inr (Some h) \<and>
        iloc_last (map Close h) = Inr (Close (last h))"
    if c: "Predict_call h s' \<in> set (fst (app E s t i))"
  proof -
    from c obtain hist where f: "get_historical_data E s t i = Inr (Some hist)"
      and ne: "hist \<noteq> []"
      and d: "Predict_call h s' \<in> set (fst (display E [Spinner (fetching_msg s)] hist s))"
      by (auto simp: app_def Let_def handler_events split: sum.splits option.splits if_splits)
    from display_call [OF d] have "h = hist" by auto
    with f ne show ?thesis by (simp add: iloc_last_nonempty)
  qed
  have no_fault: "Caught IndexError \<notin> set (fst (app E s t i))"
  proof
    assume c: "Caught IndexError \<in> set (fst (app E s t i))"
    then obtain hist where
      d: "Caught IndexError \<in> set (fst (display E [Spinner (fetching_msg s)] hist s))"
      by (auto simp: app_def Let_def handler_events split: sum.splits option.splits if_splits)
    from display_no_index_error [OF d] show False by simp
  qed
  from stop reached no_fault show ?thesis by blast
qed

text \<open>
  The theorem at concrete runs: no data and an empty frame stop the script; with three
  periods fetched the Forecaster is called on them and the last close is read.
\<close>

lemma fixed_env_simps:
  "get_historical_data (fixed_env f a) = (\<lambda>s t i. Inr f)"
  "get_company_info (fixed_env f a) = (\<lambda>s. Inr Map.empty)"
  "overview (fixed_env f a) = (\<lambda>c h s. ([''overview''], None))"
  "predict_next_day (fixed_env f a) = (\<lambda>h s. Inr a)"
  "create_prediction_chart (fixed_env f a) = (\<lambda>h p s. Inr ''chart'')"
  "about (fixed_env f a) = (\<lambda>c s. ([''about''], None))"
  by (simp_all add: fixed_env_def)

theorem predict_reached_only_with_data_witness:
  "get_historical_data (fixed_env None None) ''AAPL'' ''6mo'' ''1d'' = Inr None
   \<and> snd (app (fixed_env None None) ''AAPL'' ''6mo'' ''1d'') = Stopped
   \<and> snd (app (fixed_env (Some []) None) ''AAPL'' ''6mo'' ''1d'') = Stopped
   \<and> Predict_call three_periods ''AAPL''
        \<in> set (fst (app (fixed_env (Some three_periods) None) ''AAPL'' ''6mo'' ''1d''))
   \<and> three_periods \<noteq> []
   \<and> iloc_last (map Close three_periods) = Inr 102"
proof -
  have a: "Predict_call three_periods ''AAPL''
        \<in> set (fst (app (fixed_env (Some three_periods) None) ''AAPL'' ''6mo'' ''1d''))"
    by (simp add: app_def display_def prediction_tab_def prediction_intro_def
        fixed_env_simps three_periods_def)
  have b: "Close (last three_periods) = 102"
    by (simp add: three_periods_def flat_bar_def)
  show ?thesis
    using predict_reached_only_with_data
      [of "fixed_env None None" "''AAPL''" "''6mo''" "''1d''" three_periods "''AAPL''"]
      predict_reached_only_with_data
      [of "fixed_env (Some []) None" "''AAPL''" "''6mo''" "''1d''" three_periods "''AAPL''"]
      predict_reached_only_with_data
      [of "fixed_env (Some three_periods) None" "''AAPL''" "''6mo''" "''1d''"
        three_periods "''AAPL''"]
      a b
    by (simp add: fixed_env_simps)
qed

section \<open>The percent change\<close>

lemma display_no_zero_division:
  assumes "Caught ZeroDivisionError \<in> set (fst (display E shown hist s))"
  shows "Caught ZeroDivisionError \<in> set shown \<or> Close (last hist) = 0"
proof -
  have tab: "r \<noteq> Some ZeroDivisionError \<or> Close (last hist) = 0"
    if "prediction_tab E hist s = (ps, r)" for ps r
    using that prediction_tab_exn [of E hist s ZeroDivisionError] by auto
  from assms show ?thesis
    unfolding display_def
    by (auto simp: handler_events split: if_splits prod.splits option.splits sum.splits
        dest: prediction_tab_pair(1) tab)
qed

lemma col1_change:
  assumes "d ''predicted_price'' = Some p" and "hist \<noteq> []" and "Close (last hist) \<noteq> 0"
  shows "Change (if p > Close (last hist) then Green else Red) (p - Close (last hist))
           ((p - Close (last hist)) / Close (last hist) * 100) \<in> set (fst (col1 hist d))"
  using assms unfolding col1_def
  by (auto simp: getitem_def iloc_last_nonempty price_change_pct_nonzero Let_def
      split: sum.splits option.splits)

text \<open>
  Claim C9. Lines 199-201 divide the price difference by the last close of the series
  with no test for zero (the division in \<open>price_change_pct\<close> is \<open>truediv\<close>, which
  faults on a zero divisor). For every successful prediction (the Forecaster returned a
  dictionary holding \<open>predicted_price\<close>) on a non-empty series whose last close is
  not zero, the read of the last close succeeds, the division does not fault and
  yields \<open>(predicted_price - current_price) / current_price * 100\<close>, the tab renders
  the change with that percentage, and neither the tab nor the run ends in a
  \<open>ZeroDivisionError\<close>.
\<close>

theorem price_change_pct_defined:
  assumes "predict_next_day E hist_data stock_symbol = Inr (Some prediction_data)"
    and "prediction_data ''predicted_price'' = Some p"
    and "hist_data \<noteq> []"
    and "Close (last hist_data) \<noteq> 0"
  shows "iloc_last (map Close hist_data) = Inr (Close (last hist_data))
     \<and> price_change_pct p (Close (last hist_data)) =
         Inr ((p - Close (last hist_data)) / Close (last hist_data) * 100)
     \<and> Change (if p > Close (last hist_data) then Green else Red) (p - Close (last hist_data))
         ((p - Close (last hist_data)) / Close (last hist_data) * 100)
         \<in> set (fst (prediction_tab E hist_data stock_symbol))
     \<and> snd (prediction_tab E hist_data stock_symbol) \<noteq> Some ZeroDivisionError
     \<and> Caught ZeroDivisionError
         \<notin> set (fst (display E [Spinner (fetching_msg stock_symbol)] hist_data stock_symbol))"
proof -
  have read: "iloc_last (map Close hist_data) = Inr (Close (last hist_data))"
    using assms(3) by (rule iloc_last_nonempty)
  have quotient: "price_change_pct p (Close (last hist_data)) =
         Inr ((p - Close (last hist_data)) / Close (last hist_data) * 100)"
    using assms(4) by (rule price_change_pct_nonzero)
  have "Change (if p > Close (last hist_data) then Green else Red) (p - Close (last hist_data))
         ((p - Close (last hist_data)) / Close (last hist_data) * 100)
         \<in> set (fst (col1 hist_data prediction_data))"
    using assms(2-4) by (rule col1_change)
  then have shown: "Change (if p > Close (last hist_data) then Green else Red)
         (p - Close (last hist_data))
         ((p - Close (last hist_data)) / Close (last hist_data) * 100)
         \<in> set (fst (prediction_tab E hist_data stock_symbol))"
    using assms(1) unfolding prediction_tab_def
    by (auto simp: Let_def split: prod.splits option.splits sum.splits)
  have tab: "snd (prediction_tab E hist_data stock_symbol) \<noteq> Some ZeroDivisionError"
    using prediction_tab_exn [of E hist_data stock_symbol ZeroDivisionError] assms(4) by auto
  have run: "Caught ZeroDivisionError
         \<notin> set (fst (display E [Spinner (fetching_msg stock_symbol)] hist_data stock_symbol))"
    using display_no_zero_division [of E "[Spinner (fetching_msg stock_symbol)]" hist_data stock_symbol]
      assms(4) by auto
  from read quotient shown tab run show ?thesis by simp
qed

text \<open>
  The theorem at a concrete run: three periods with last close 102 and a predicted
  price of 153 give a change of 51, that is 50 percent.
\<close>

theorem price_change_pct_defined_witness:
  "predict_next_day (fixed_env (Some three_periods) (Some [''predicted_price'' \<mapsto> 153]))
       three_periods ''AAPL'' = Inr (Some [''predicted_price'' \<mapsto> 153])
   \<and> [''predicted_price'' \<mapsto> (153::real)] ''predicted_price'' = Some 153
   \<and> three_periods \<noteq> []
   \<and> Close (last three_periods) \<noteq> 0
   \<and> price_change_pct 153 (Close (last three_periods)) = Inr 50
   \<and> Change Green 51 50
        \<in> set (fst (prediction_tab
             (fixed_env (Some three_periods) (Some [''predicted_price'' \<mapsto> 153]))
             three_periods ''AAPL''))"
proof -
  have c: "Close (last three_periods) = 102"
    by (simp add: three_periods_def flat_bar_def)
  show ?thesis
    using price_change_pct_defined
      [of "fixed_env (Some three_periods) (Some [''predicted_price'' \<mapsto> 153])"
        three_periods "''AAPL''" "[''predicted_price'' \<mapsto> 153]" 153]
    by (simp add: fixed_env_simps c) (simp add: three_periods_def)
qed


section \<open>Too short a series\<close>

lemma unavailable_rendering:
  "predict_next_day E hist s = Inr None \<Longrightarrow>
     prediction_tab E hist s = (prediction_intro hist s @ [Error unable_msg], None)"
  by (simp add: prediction_tab_def Let_def)

lemma with_forecaster_predict:
  "predict_next_day (with_forecaster P E) hist s = Inr (map_option as_dict (forecaster P hist s))"
  by (simp add: with_forecaster_def)

lemma prediction_intro_no_number: "\<not> list_ex shows_number (prediction_intro hist s)"
  by (simp add: prediction_intro_def)

lemma feature_rows_length:
  "feature_rows P hist = Inr rows \<Longrightarrow> length rows = length hist - lookback"
  by (auto simp: feature_rows_def split: if_splits)

lemma split_of_short:
  assumes "length hist \<le> lookback + 2"
  shows "split_of P hist = Inl InsufficientDataError"
proof (cases "length hist < lookback + 2")
  case True
  then show ?thesis by (simp add: split_of_def feature_rows_def)
next
  case False
  with assms have n: "length hist = lookback + 2" by simp
  then obtain rows where r: "feature_rows P hist = Inr rows"
    by (simp add: feature_rows_def)
  from feature_rows_length [OF r] n have "length rows = 2" by simp
  then have "length (labeled_examples hist rows) < 2"
    by (simp add: labeled_examples_def)
  with r show ?thesis by (simp add: split_of_def chronological_split_def)
qed

text \<open>
  Claim C1. For every series with fewer periods than the minimum of section 4.1
  (lookback + 2, that is 7), the pipeline fails with InsufficientDataError inside the
  Forecaster, the Forecaster returns the "unavailable" sentinel \<open>None\<close>, and the
  Prediction tab of the script, called with this Forecaster, renders its introduction
  and the error message "Unable to generate predictions ..." and no element that shows
  a number of a forecast; the tab raises nothing.
\<close>

theorem short_series_unavailable:
  assumes "length hist < lookback + 2"
  shows "pipeline P hist = Inl InsufficientDataError
     \<and> forecaster P hist ticker = None
     \<and> prediction_tab (with_forecaster P E) hist ticker =
         (prediction_intro hist ticker @ [Error unable_msg], None)
     \<and> \<not> list_ex shows_number (fst (prediction_tab (with_forecaster P E) hist ticker))"
proof -
  from assms have "length hist \<le> lookback + 2" by simp
  then have "split_of P hist = Inl InsufficientDataError" by (rule split_of_short)
  then have p: "pipeline P hist = Inl InsufficientDataError"
    by (simp add: pipeline_def)
  then have f: "forecaster P hist ticker = None"
    by (simp add: forecaster_def)
  then have "predict_next_day (with_forecaster P E) hist ticker = Inr None"
    by (simp add: with_forecaster_predict)
  then have t: "prediction_tab (with_forecaster P E) hist ticker =
         (prediction_intro hist ticker @ [Error unable_msg], None)"
    by (rule unavailable_rendering)
  have "\<not> list_ex shows_number (prediction_intro hist ticker @ [Error unable_msg])"
    using prediction_intro_no_number [of hist ticker] by simp
  with p f t show ?thesis by simp
qed

text \<open>The theorem at the series of exactly three periods (scenario B of the specification).\<close>

theorem short_series_unavailable_witness:
  "length three_periods < lookback + 2
   \<and> forecaster naive_policy three_periods ''AAPL'' = None
   \<and> prediction_tab (with_forecaster naive_policy (fixed_env (Some three_periods) None))
        three_periods ''AAPL'' =
      ([Header ''Stock Price Prediction'', Info prediction_info_msg,
        Spinner ''Training prediction model...'', Predict_call three_periods ''AAPL'',
        Error unable_msg], None)"
proof -
  have l: "length three_periods < lookback + 2"
    by (simp add: three_periods_def lookback_def)
  show ?thesis
    using short_series_unavailable
      [OF l, of naive_policy "''AAPL''" "fixed_env (Some three_periods) None"] l
    by (simp add: prediction_intro_def)
qed

section \<open>The internal split\<close>

lemma feature_rows_periods:
  assumes "feature_rows P hist = Inr rows"
  shows "map period rows = [lookback ..< length hist]" and "lookback + 2 \<le> length hist"
  using assms by (auto simp: feature_rows_def comp_def split: if_splits)

lemma labeled_examples_rows: "map row (labeled_examples hist rows) = butlast rows"
  by (simp add: labeled_examples_def comp_def)

lemma chronological_split_parts:
  assumes "chronological_split xs = Inr (train, evaluation)"
  shows "train = take (train_size (length xs)) xs"
    and "evaluation = drop (train_size (length xs)) xs"
    and "train @ evaluation = xs"
  using assms by (auto simp: chronological_split_def split: if_splits)

lemma pipeline_split:
  assumes "pipeline P hist = Inr r"
  shows "\<exists>train evaluation inference_row m.
           split_of P hist = Inr (train, evaluation, inference_row) \<and> fit P train = Some m \<and>
           predicted_price r = infer P m (features inference_row)"
  using assms
  by (auto simp: pipeline_def Let_def split: sum.splits prod.splits option.splits)

lemma last_not_in_butlast:
  assumes "distinct (map f xs)" and "xs \<noteq> []"
  shows "last xs \<notin> set (butlast xs)"
proof -
  from assms(1) have "distinct xs" by (simp add: distinct_map)
  moreover from assms(2) have "xs = butlast xs @ [last xs]" by simp
  ultimately have "distinct (butlast xs @ [last xs])" by simp
  then show ?thesis by simp
qed

text \<open>
  Claim C7. Whenever the pipeline gets as far as its split, the reserved inference row
  is the last FeatureRow (the one of the most recent period, \<open>length hist - 1\<close>) and
  it is a member neither of the training partition nor of the evaluation partition.
  The labelled examples are all the other FeatureRows in their order; the training
  partition is a prefix of them and the evaluation partition the remaining suffix, so
  training followed by evaluation lists the periods \<open>lookback, ..., length hist - 2\<close>
  in ascending order, with nothing reordered.
\<close>

theorem inference_row_reserved:
  assumes "split_of P hist = Inr (train, evaluation, inference_row)"
  shows "inference_row \<notin> row ` set train
     \<and> inference_row \<notin> row ` set evaluation
     \<and> period inference_row = length hist - 1
     \<and> map (\<lambda>e. period (row e)) (train @ evaluation) = [lookback ..< length hist - 1]
     \<and> (\<exists>rows. feature_rows P hist = Inr rows \<and> inference_row = last rows
           \<and> map row (train @ evaluation) = butlast rows
           \<and> train = take (train_size (length rows - 1)) (labeled_examples hist rows)
           \<and> evaluation = drop (train_size (length rows - 1)) (labeled_examples hist rows))"
proof -
  from assms obtain rows where r: "feature_rows P hist = Inr rows"
    and s: "chronological_split (labeled_examples hist rows) = Inr (train, evaluation)"
    and i: "inference_row = last rows"
    by (auto simp: split_of_def split: sum.splits prod.splits)
  note ps = feature_rows_periods [OF r]
  from feature_rows_length [OF r] ps(2) have ne: "rows \<noteq> []" by auto
  have len: "length (labeled_examples hist rows) = length rows - 1"
    by (simp add: labeled_examples_def)
  note parts = chronological_split_parts [OF s]
  have whole: "map row (train @ evaluation) = butlast rows"
    using parts(3) labeled_examples_rows [of hist rows] by simp
  have d: "distinct (map period rows)" using ps(1) by simp
  have "inference_row \<notin> set (butlast rows)"
    unfolding i using d ne by (rule last_not_in_butlast)
  then have out: "inference_row \<notin> set (map row (train @ evaluation))"
    using whole by simp
  have "period (last rows) = last (map period rows)"
    using ne by (simp add: last_map)
  also have "\<dots> = length hist - 1"
    using ps by (simp add: lookback_def)
  finally have at: "period inference_row = length hist - 1"
    using i by simp
  have "map (\<lambda>e. period (row e)) (train @ evaluation) = map period (map row (train @ evaluation))"
    by (simp add: comp_def)
  also have "\<dots> = butlast (map period rows)"
    using whole by (simp add: map_butlast)
  also have "\<dots> = [lookback ..< length hist - 1]"
    using ps by (simp add: butlast_conv_take)
  finally have order: "map (\<lambda>e. period (row e)) (train @ evaluation) = [lookback ..< length hist - 1]" .
  from out have "inference_row \<notin> row ` set train" "inference_row \<notin> row ` set evaluation"
    by auto
  moreover note at order
  moreover have "\<exists>rows. feature_rows P hist = Inr rows \<and> inference_row = last rows
           \<and> map row (train @ evaluation) = butlast rows
           \<and> train = take (train_size (length rows - 1)) (labeled_examples hist rows)
           \<and> evaluation = drop (train_size (length rows - 1)) (labeled_examples hist rows)"
    using r i whole parts(1,2) len by auto
  ultimately show ?thesis by blast
qed

text \<open>
  The theorem at a series of eight periods: the rows are those of periods 5, 6 and 7;
  period 5 is the training set, period 6 the evaluation set, period 7 is reserved.
\<close>

lemma split_of_eight_periods:
  "split_of naive_policy eight_periods =
     Inr ([\<lparr>row = \<lparr>period = 5, features = [100, 101, 102, 103, 104]\<rparr>, target = 106\<rparr>],
          [\<lparr>row = \<lparr>period = 6, features = [101, 102, 103, 104, 105]\<rparr>, target = 107\<rparr>],
          \<lparr>period = 7, features = [102, 103, 104, 105, 106]\<rparr>)"
  by (simp add: split_of_def feature_rows_def labeled_examples_def chronological_split_def
      train_size_def lookback_def naive_policy_def eight_periods_def flat_bar_def)

theorem inference_row_reserved_witness:
  "split_of naive_policy eight_periods =
     Inr ([\<lparr>row = \<lparr>period = 5, features = [100, 101, 102, 103, 104]\<rparr>, target = 106\<rparr>],
          [\<lparr>row = \<lparr>period = 6, features = [101, 102, 103, 104, 105]\<rparr>, target = 107\<rparr>],
          \<lparr>period = 7, features = [102, 103, 104, 105, 106]\<rparr>)
   \<and> period \<lparr>period = 7, features = [102, 103, 104, 105, 106]\<rparr> = length eight_periods - 1
   \<and> map (\<lambda>e. period (row e))
        ([\<lparr>row = \<lparr>period = 5, features = [100, 101, 102, 103, 104]\<rparr>, target = 106\<rparr>] @
         [\<lparr>row = \<lparr>period = 6, features = [101, 102, 103, 104, 105]\<rparr>, target = 107\<rparr>])
      = [lookback ..< length eight_periods - 1]"
  using inference_row_reserved [OF split_of_eight_periods] split_of_eight_periods
  by simp

section \<open>The evaluation metrics over the real numbers\<close>

text \<open>
  The formulas of section 4.4, read over the real numbers. A successful split leaves
  both partitions non-empty, so the means below are taken over at least one residual.
  In double precision the square of a very small residual can underflow to zero, so
  the equivalence of the two zero tests is a property of the formulas and not of
  their floating-point evaluation.
\<close>

lemma chronological_split_nonempty:
  assumes "chronological_split xs = Inr (train, evaluation)"
  shows "train \<noteq> [] \<and> evaluation \<noteq> []"
proof -
  from assms have n: "2 \<le> length xs"
    and t: "train = take (train_size (length xs)) xs"
    and e: "evaluation = drop (train_size (length xs)) xs"
    by (auto simp: chronological_split_def split: if_splits)
  from n have "1 \<le> train_size (length xs)" "train_size (length xs) < length xs"
    by (simp_all add: train_size_def)
  with t e n show ?thesis by auto
qed

lemma mean_nonneg:
  assumes "\<And>x. x \<in> set xs \<Longrightarrow> 0 \<le> x"
  shows "0 \<le> mean xs"
proof -
  from assms have "0 \<le> sum_list xs" by (rule sum_list_nonneg)
  then show ?thesis unfolding mean_def by (rule divide_nonneg_nonneg) simp
qed

lemma mean_absolute_error_nonneg: "0 \<le> mean_absolute_error rs"
  unfolding mean_absolute_error_def by (rule mean_nonneg) auto

lemma mean_square_nonneg: "0 \<le> mean (map (\<lambda>r. r\<^sup>2) rs)"
  by (rule mean_nonneg) auto

lemma root_mean_squared_error_nonneg: "0 \<le> root_mean_squared_error rs"
  by (simp add: root_mean_squared_error_def mean_square_nonneg)

lemma sum_abs_zero_iff: "sum_list (map abs rs) = 0 \<longleftrightarrow> (\<forall>r\<in>set rs. r = (0::real))"
  by (subst sum_list_nonneg_eq_0_iff) auto

lemma sum_squares_zero_iff: "sum_list (map (\<lambda>r. r\<^sup>2) rs) = 0 \<longleftrightarrow> (\<forall>r\<in>set rs. r = (0::real))"
  by (subst sum_list_nonneg_eq_0_iff) auto

lemma rmse_zero_iff_mae_zero:
  "(root_mean_squared_error rs = 0) = (mean_absolute_error rs = 0)"
  by (simp add: root_mean_squared_error_def mean_absolute_error_def mean_def
      sum_abs_zero_iff sum_squares_zero_iff)

lemma metrics_exact_iff:
  "rs \<noteq> [] \<Longrightarrow> (mean_absolute_error rs = 0) = (\<forall>r\<in>set rs. r = 0)"
  by (simp add: mean_absolute_error_def mean_def sum_abs_zero_iff)

lemma pipeline_metrics:
  assumes "pipeline P hist = Inr r"
  shows "0 \<le> mae r \<and> 0 \<le> rmse r \<and> (rmse r = 0) = (mae r = 0)"
  using assms mean_absolute_error_nonneg root_mean_squared_error_nonneg rmse_zero_iff_mae_zero
  by (auto simp: pipeline_def Let_def split: sum.splits prod.splits option.splits)


text \<open>
  The pipeline at the series of eight periods: the model fitted on period 5 predicts
  106 for period 6, whose next close is 107, so the one residual is -1.
\<close>

lemma pipeline_eight_periods:
  "pipeline naive_policy eight_periods =
     Inr \<lparr>predicted_price = 106, mae = 1, rmse = 1, r2 = 0\<rparr>"
  by (simp add: pipeline_def split_of_eight_periods)
    (simp add: naive_policy_def residuals_def mean_absolute_error_def
      root_mean_squared_error_def r_squared_def mean_def)

lemma pipeline_metrics_eight_periods:
  "pipeline naive_policy eight_periods =
     Inr \<lparr>predicted_price = 106, mae = 1, rmse = 1, r2 = 0\<rparr>
   \<and> (0::real) \<le> mae \<lparr>predicted_price = 106, mae = 1, rmse = 1, r2 = 0\<rparr>
   \<and> (rmse \<lparr>predicted_price = 106, mae = 1, rmse = 1, r2 = 0\<rparr> = 0)
       = (mae \<lparr>predicted_price = 106, mae = 1, rmse = 1, r2 = 0\<rparr> = 0)"
  using pipeline_metrics [OF pipeline_eight_periods] pipeline_eight_periods by simp

end
